theory Spec2Isabelle
  imports Complex_Main
begin

section \<open>Python values, tracks and events\<close>

text \<open>
  The embedding follows \<^verbatim>\<open>src/xl/player.py\<close>. Every method becomes a function that
  takes the object it is called on and gives back the returned value together with the
  object after the call. A method that can raise returns \<open>py_error + 'a\<close> (\<open>Inl\<close> is the
  exception), paired with the state the object is left in when the exception leaves it.
  \<^verbatim>\<open>time.time()\<close> is the argument \<open>now\<close> (seconds, a rational number) of every method
  that reads the clock.
\<close>

datatype py_error = AttributeError | AssertionError | ZeroDivisionError

text \<open>The values a track's \<^verbatim>\<open>'playtime'\<close> entry is tested for: an int, a str, or anything else.\<close>

datatype pyval = PyInt int | PyStr string | PyOther

text \<open>
  A track is an external collaborator. The model keeps what the player asks of it:
  its identity \<open>t_id\<close> (Python compares tracks as objects), \<^verbatim>\<open>get_loc_for_io()\<close>, the scheme
  \<^verbatim>\<open>urlsplit\<close> finds in that locator, \<^verbatim>\<open>is_local()\<close>, \<^verbatim>\<open>exists()\<close> and \<^verbatim>\<open>get_duration()\<close> in
  whole seconds. The mutable \<^verbatim>\<open>track['playtime']\<close> lives in a store keyed by \<open>t_id\<close>,
  so that every reference to the track sees the update.
\<close>

record track =
  t_id :: nat
  t_loc :: string
  t_scheme :: string
  t_is_local :: bool
  t_exists :: bool
  t_duration :: int

datatype gst_state = STATE_NULL | STATE_READY | STATE_PAUSED | STATE_PLAYING

text \<open>
  What \<^verbatim>\<open>PlayQueue.stop_track\<close> can hold: the integer sentinel (\<open>MInt (-1)\<close>), a track,
  or \<^verbatim>\<open>None\<close>.
\<close>

datatype marker = MInt int | MNone | MTrack track

datatype event =
    Event_stop_track marker
  | Event_playback_start track
  | Event_playback_end "track option"
  | Event_playback_pause "track option"
  | Event_playback_resume "track option"
  | Event_playback_toggle_pause "track option"
  | Event_playback_error string
  | Event_stream_settled nat

text \<open>\<^verbatim>\<open>int(x)\<close> of a number truncates towards zero.\<close>

definition py_int :: "rat \<Rightarrow> int" where
  "py_int x = (if 0 \<le> x then \<lfloor>x\<rfloor> else \<lceil>x\<rceil>)"

text \<open>
  \<^verbatim>\<open>int(s)\<close> of a str: surrounding whitespace, an optional sign, decimal digits.
  \<open>None\<close> stands for the \<^verbatim>\<open>ValueError\<close> that the callers catch with a bare \<^verbatim>\<open>except\<close>.
\<close>

definition py_isspace :: "char \<Rightarrow> bool" where
  "py_isspace c = (c \<in> set [CHR '' '', CHR 0x09, CHR 0x0A, CHR 0x0B, CHR 0x0C, CHR 0x0D])"

definition py_strip :: "string \<Rightarrow> string" where
  "py_strip s = rev (dropWhile py_isspace (rev (dropWhile py_isspace s)))"

definition digit_of :: "char \<Rightarrow> nat option" where
  "digit_of c =
     (let k = of_char c :: nat
      in if 48 \<le> k \<and> k \<le> 57 then Some (k - 48) else None)"

fun digits_of :: "nat \<Rightarrow> string \<Rightarrow> nat option" where
  "digits_of acc [] = Some acc"
| "digits_of acc (c # cs) =
     (case digit_of c of None \<Rightarrow> None | Some d \<Rightarrow> digits_of (10 * acc + d) cs)"

definition py_int_of_str :: "string \<Rightarrow> int option" where
  "py_int_of_str s =
     (case py_strip s of
        [] \<Rightarrow> None
      | c # cs \<Rightarrow>
          if c = CHR ''-'' then (if cs = [] then None else map_option (\<lambda>n. - int n) (digits_of 0 cs))
          else if c = CHR ''+'' then (if cs = [] then None else map_option int (digits_of 0 cs))
          else map_option int (digits_of 0 (c # cs)))"

text \<open>\<^verbatim>\<open>gst.SECOND\<close>: positions are nanoseconds.\<close>

definition gst_SECOND :: int where
  "gst_SECOND = 1000000000"

section \<open>AudioSink\<close>

text \<open>
  \<open>sink_volume\<close> is the \<^verbatim>\<open>volume\<close> property of the sink's \<^verbatim>\<open>volume\<close> element (default 1).
\<close>

record audio_sink =
  sink_name :: string
  sink_elem :: string
  sink_volume :: rat

definition AudioSink_set_volume :: "rat \<Rightarrow> audio_sink \<Rightarrow> audio_sink" where
  "AudioSink_set_volume v s = s\<lparr>sink_volume := v\<rparr>"

text \<open>
  \<^verbatim>\<open>get_volume\<close> reads the property and falls off the end of the method: the value read is
  dropped and the call evaluates to \<^verbatim>\<open>None\<close>.
\<close>

definition AudioSink_get_volume :: "audio_sink \<Rightarrow> rat option" where
  "AudioSink_get_volume s = (let read = sink_volume s in None)"

section \<open>BaseGSTPlayer\<close>

text \<open>
  \<open>p_state\<close> is the state the playbin reports; \<^verbatim>\<open>set_state\<close> is taken to have effect at
  once. \<open>p_query_position\<close> is what the backend answers to a position query (\<open>None\<close>: it
  raises \<^verbatim>\<open>gst.QueryError\<close>). \<open>p_playtime\<close> is the store of the tracks' \<^verbatim>\<open>'playtime'\<close>
  entries. \<open>p_events\<close> collects the events the player logs.
\<close>

record gst_player =
  p_current :: "track option"
  p_last_position :: int
  p_playtime_stamp :: "int option"
  p_state :: gst_state
  p_uri :: "string option"
  p_notify_source :: bool
  p_query_position :: "int option"
  p_playtime :: "nat \<Rightarrow> pyval"
  p_events :: "event list"

definition BaseGSTPlayer_is_playing :: "gst_player \<Rightarrow> bool" where
  "BaseGSTPlayer_is_playing p = (p_state p = STATE_PLAYING)"

definition BaseGSTPlayer_is_paused :: "gst_player \<Rightarrow> bool" where
  "BaseGSTPlayer_is_paused p = (p_state p = STATE_PAUSED)"

definition BaseGSTPlayer_get_position :: "gst_player \<Rightarrow> int \<times> gst_player" where
  "BaseGSTPlayer_get_position p =
     (if BaseGSTPlayer_is_paused p then (p_last_position p, p)
      else
        (let pos = (case p_query_position p of Some x \<Rightarrow> x | None \<Rightarrow> 0)
         in (pos, p\<lparr>p_last_position := pos\<rparr>)))"

definition BaseGSTPlayer_get_time :: "gst_player \<Rightarrow> int \<times> gst_player" where
  "BaseGSTPlayer_get_time p =
     (let (pos, p') = BaseGSTPlayer_get_position p in (pos div gst_SECOND, p'))"

text \<open>
  \<^verbatim>\<open>get_progress\<close>: \<^verbatim>\<open>self.get_time()\<close> is evaluated first, then \<^verbatim>\<open>self.current.get_duration()\<close>,
  which raises \<^verbatim>\<open>AttributeError\<close> on \<^verbatim>\<open>None\<close>; only \<^verbatim>\<open>ZeroDivisionError\<close> is caught.
  The float quotient is given as the exact rational.
\<close>

definition BaseGSTPlayer_get_progress :: "gst_player \<Rightarrow> (py_error + rat) \<times> gst_player" where
  "BaseGSTPlayer_get_progress p =
     (let (t, p') = BaseGSTPlayer_get_time p
      in case p_current p' of
           None \<Rightarrow> (Inl AttributeError, p')
         | Some tr \<Rightarrow>
             if t_duration tr = 0 then (Inr 0, p')
             else (Inr (of_int t / of_int (t_duration tr)), p'))"

definition playtime_as_int :: "pyval \<Rightarrow> int" where
  "playtime_as_int v =
     (case v of
        PyStr s \<Rightarrow> (case py_int_of_str s of Some n \<Rightarrow> n | None \<Rightarrow> 0)
      | PyInt n \<Rightarrow> n
      | PyOther \<Rightarrow> 0)"

definition stamp_truthy :: "int option \<Rightarrow> bool" where
  "stamp_truthy st = (case st of None \<Rightarrow> False | Some n \<Rightarrow> n \<noteq> 0)"

definition BaseGSTPlayer_update_playtime :: "rat \<Rightarrow> gst_player \<Rightarrow> gst_player" where
  "BaseGSTPlayer_update_playtime now p =
     (case p_current p of
        None \<Rightarrow> p
      | Some tr \<Rightarrow>
          if stamp_truthy (p_playtime_stamp p) then
            (let played = playtime_as_int (p_playtime p (t_id tr));
                 credit = py_int (now - of_int (the (p_playtime_stamp p)))
             in p\<lparr>p_playtime := (p_playtime p)(t_id tr := PyInt (played + credit)),
                  p_playtime_stamp := None\<rparr>)
          else p)"

definition BaseGSTPlayer_reset_playtime_stamp :: "rat \<Rightarrow> gst_player \<Rightarrow> gst_player" where
  "BaseGSTPlayer_reset_playtime_stamp now p = p\<lparr>p_playtime_stamp := Some (py_int now)\<rparr>"

definition log_event :: "event \<Rightarrow> gst_player \<Rightarrow> gst_player" where
  "log_event e p = p\<lparr>p_events := p_events p @ [e]\<rparr>"

text \<open>\<^verbatim>\<open>_on_playback_error\<close>, called by \<^verbatim>\<open>on_message\<close> for a \<^verbatim>\<open>gst.MESSAGE_ERROR\<close> of the bus.\<close>

definition BaseGSTPlayer_on_playback_error :: "string \<Rightarrow> gst_player \<Rightarrow> gst_player" where
  "BaseGSTPlayer_on_playback_error message p = log_event (Event_playback_error message) p"

definition BaseGSTPlayer_stop :: "rat \<Rightarrow> gst_player \<Rightarrow> bool \<times> gst_player" where
  "BaseGSTPlayer_stop now p =
     (if BaseGSTPlayer_is_playing p \<or> BaseGSTPlayer_is_paused p then
        (let p1 = BaseGSTPlayer_update_playtime now p;
             current = p_current p1;
             p2 = p1\<lparr>p_state := STATE_NULL\<rparr>;
             p3 = p2\<lparr>p_current := None\<rparr>
         in (True, log_event (Event_playback_end current) p3))
      else (False, p))"

text \<open>
  \<^verbatim>\<open>play\<close> stops first, whatever the track is. \<^verbatim>\<open>_get_track_uri\<close> asserts that the locator
  has a scheme; the rewriting of the path inside the URI is not modelled, the playbin's
  \<^verbatim>\<open>uri\<close> is the locator.
\<close>

definition BaseGSTPlayer_play ::
  "rat \<Rightarrow> track option \<Rightarrow> gst_player \<Rightarrow> (py_error + bool) \<times> gst_player" where
  "BaseGSTPlayer_play now track p =
     (let p1 = snd (BaseGSTPlayer_stop now p)
      in case track of
           None \<Rightarrow> (Inr False, p1)
         | Some t \<Rightarrow>
             if t_is_local t \<and> \<not> t_exists t then (Inr False, p1)
             else
               (let p2 = p1\<lparr>p_current := Some t\<rparr>
                in if t_scheme t = [] then (Inl AssertionError, p2)
                   else
                     (let p3 = BaseGSTPlayer_reset_playtime_stamp now p2;
                          p4 = p3\<lparr>p_uri := Some (t_loc t)\<rparr>;
                          p5 = (if t_scheme t = ''cdda'' then p4\<lparr>p_notify_source := True\<rparr> else p4);
                          p6 = p5\<lparr>p_state := STATE_PLAYING\<rparr>
                      in (Inr True, log_event (Event_playback_start t) p6))))"

definition BaseGSTPlayer_pause :: "rat \<Rightarrow> gst_player \<Rightarrow> bool \<times> gst_player" where
  "BaseGSTPlayer_pause now p =
     (if BaseGSTPlayer_is_playing p then
        (let p1 = BaseGSTPlayer_update_playtime now p;
             p2 = p1\<lparr>p_state := STATE_PAUSED\<rparr>;
             p3 = BaseGSTPlayer_reset_playtime_stamp now p2
         in (True, log_event (Event_playback_pause (p_current p3)) p3))
      else (False, p))"

definition BaseGSTPlayer_unpause ::
  "rat \<Rightarrow> gst_player \<Rightarrow> (py_error + bool) \<times> gst_player" where
  "BaseGSTPlayer_unpause now p =
     (if BaseGSTPlayer_is_paused p then
        (let p1 = BaseGSTPlayer_reset_playtime_stamp now p
         in case p_current p1 of
              None \<Rightarrow> (Inl AttributeError, p1)
            | Some t \<Rightarrow>
                (let p2 = (if \<not> t_is_local t then p1\<lparr>p_state := STATE_READY\<rparr> else p1);
                     p3 = p2\<lparr>p_state := STATE_PLAYING\<rparr>
                 in (Inr True, log_event (Event_playback_resume (p_current p3)) p3)))
      else (Inr False, p))"

section \<open>PlayQueue\<close>

text \<open>
  The queue is given a player at construction and uses three things of it: the attribute
  \<^verbatim>\<open>current\<close>, \<^verbatim>\<open>stop()\<close> and \<^verbatim>\<open>play(track)\<close>, whose return values it drops. They are the
  record \<open>player_ops\<close>; \<open>gst_ops\<close> is \<^verbatim>\<open>GSTPlayer\<close>, the engine \<^verbatim>\<open>get_player\<close> falls back to.
  The current playlist is an object of \<^verbatim>\<open>xl.playlist\<close>, which is not part of this file: its
  truth value, its \<^verbatim>\<open>next()\<close> and the assignment to its \<^verbatim>\<open>current_playing\<close> are the
  parameters \<open>playlist_ops\<close>. Track objects count as true.
\<close>

record 'p player_ops =
  po_current :: "'p \<Rightarrow> track option"
  po_stop :: "rat \<Rightarrow> 'p \<Rightarrow> (py_error + unit) \<times> 'p"
  po_play :: "rat \<Rightarrow> track \<Rightarrow> 'p \<Rightarrow> (py_error + unit) \<times> 'p"

record 'pl playlist_ops =
  pl_truthy :: "'pl \<Rightarrow> bool"
  pl_next :: "'pl \<Rightarrow> track option \<times> 'pl"
  pl_set_current_playing :: "bool \<Rightarrow> 'pl \<Rightarrow> 'pl"

record ('pl, 'p) play_queue =
  q_ordered_tracks :: "track list"
  q_current_pos :: int
  q_current_playing :: bool
  q_current_playlist :: "'pl option"
  q_stop_track :: marker
  q_player :: 'p
  q_events :: "event list"


text \<open>\<^verbatim>\<open>self.player.current == self.stop_track\<close>: a track equals itself only, \<^verbatim>\<open>None\<close> equals \<^verbatim>\<open>None\<close>.\<close>

definition marker_eq :: "track option \<Rightarrow> marker \<Rightarrow> bool" where
  "marker_eq cur m = (case cur of None \<Rightarrow> m = MNone | Some t \<Rightarrow> m = MTrack t)"

text \<open>
  Lines 80 to 90 of \<^verbatim>\<open>next\<close>: the track comes from the front of the queue, or, when the queue
  is empty, from the current playlist.
\<close>

definition PlayQueue_next_pick ::
  "'pl playlist_ops \<Rightarrow> ('pl, 'p) play_queue \<Rightarrow> track option \<times> ('pl, 'p) play_queue" where
  "PlayQueue_next_pick lo q =
     (case q_ordered_tracks q of
        [] \<Rightarrow>
          (case q_current_playlist q of
             None \<Rightarrow> (None, q)
           | Some pl \<Rightarrow>
               if pl_truthy lo pl then
                 (let (tr, pl1) = pl_next lo pl;
                      pl2 = pl_set_current_playing lo True pl1
                  in (tr, q\<lparr>q_current_playlist := Some pl2, q_current_playing := False\<rparr>))
               else (None, q))
      | t # rest \<Rightarrow>
          (let q1 = q\<lparr>q_ordered_tracks := rest, q_current_pos := 0, q_current_playing := True\<rparr>
           in case q_current_playlist q1 of
                None \<Rightarrow> (Some t, q1)
              | Some pl \<Rightarrow>
                  if pl_truthy lo pl then
                    (Some t, q1\<lparr>q_current_playlist := Some (pl_set_current_playing lo False pl)\<rparr>)
                  else (Some t, q1)))"

text \<open>
  \<^verbatim>\<open>next(player, track)\<close>. The stop marker is looked at only under \<^verbatim>\<open>if player:\<close>. An
  exception of the player leaves \<^verbatim>\<open>next\<close> at the call that raised it.
\<close>

definition PlayQueue_next ::
  "'pl playlist_ops \<Rightarrow> 'p player_ops \<Rightarrow> rat \<Rightarrow> bool \<Rightarrow> track option \<Rightarrow> ('pl, 'p) play_queue
     \<Rightarrow> (py_error + track option) \<times> ('pl, 'p) play_queue" where
  "PlayQueue_next lo po now player track q =
     (if track = None \<and> player \<and> marker_eq (po_current po (q_player q)) (q_stop_track q) then
        (case po_stop po now (q_player q) of
           (Inl e, p') \<Rightarrow> (Inl e, q\<lparr>q_player := p'\<rparr>)
         | (Inr u, p') \<Rightarrow>
             (let q1 = q\<lparr>q_player := p'\<rparr>;
                  q2 = q1\<lparr>q_events := q_events q1 @ [Event_stop_track (q_stop_track q1)]\<rparr>;
                  q3 = q2\<lparr>q_stop_track := MInt (- 1)\<rparr>
              in (Inr None, q3)))
      else
        (let (track1, q1) = (if track = None then PlayQueue_next_pick lo q else (track, q))
         in if player then
              (case track1 of
                 None \<Rightarrow>
                   (case po_stop po now (q_player q1) of
                      (Inl e, p') \<Rightarrow> (Inl e, q1\<lparr>q_player := p'\<rparr>)
                    | (Inr u, p') \<Rightarrow> (Inr None, q1\<lparr>q_player := p'\<rparr>))
               | Some t \<Rightarrow>
                   (case po_play po now t (q_player q1) of
                      (Inl e, p') \<Rightarrow> (Inl e, q1\<lparr>q_player := p'\<rparr>)
                    | (Inr u, p') \<Rightarrow> (Inr (Some t), q1\<lparr>q_player := p'\<rparr>)))
            else (Inr track1, q1)))"




text \<open>A playlist for the examples: the tracks it still has to give, and its flag.\<close>

definition list_playlist :: "(track list \<times> bool) playlist_ops" where
  "list_playlist =
     \<lparr>pl_truthy = (\<lambda>pl. True),
      pl_next = (\<lambda>(ts, fl). case ts of [] \<Rightarrow> (None, ([], fl)) | t # r \<Rightarrow> (Some t, (r, fl))),
      pl_set_current_playing = (\<lambda>b (ts, fl). (ts, b))\<rparr>"

definition track_A :: track where
  "track_A = \<lparr>t_id = 1, t_loc = ''file:///music/a.ogg'', t_scheme = ''file'',
     t_is_local = True, t_exists = True, t_duration = 200\<rparr>"

definition track_B :: track where
  "track_B = \<lparr>t_id = 2, t_loc = ''file:///music/b.ogg'', t_scheme = ''file'',
     t_is_local = True, t_exists = True, t_duration = 2\<rparr>"

definition track_missing :: track where
  "track_missing = \<lparr>t_id = 3, t_loc = ''file:///music/gone.ogg'', t_scheme = ''file'',
     t_is_local = True, t_exists = False, t_duration = 180\<rparr>"

text \<open>
  A \<^verbatim>\<open>GSTPlayer\<close> as \<^verbatim>\<open>__init__\<close> leaves it, and the player that \<^verbatim>\<open>play(track_A)\<close> at second 100
  makes of it (lemma \<open>player_on_A_reached\<close>).
\<close>

definition player_init :: gst_player where
  "player_init = \<lparr>p_current = None, p_last_position = 0, p_playtime_stamp = None,
     p_state = STATE_NULL, p_uri = None, p_notify_source = False,
     p_query_position = Some 0, p_playtime = (\<lambda>i. PyInt 0), p_events = []\<rparr>"

definition player_on_A :: gst_player where
  "player_on_A = \<lparr>p_current = Some track_A, p_last_position = 0, p_playtime_stamp = Some 100,
     p_state = STATE_PLAYING, p_uri = Some (t_loc track_A), p_notify_source = False,
     p_query_position = Some 0, p_playtime = (\<lambda>i. PyInt 0),
     p_events = [Event_playback_start track_A]\<rparr>"


section \<open>AudioStream and UnifiedPlayer\<close>

text \<open>
  The unified engine holds its streams in the two-slot list \<^verbatim>\<open>self.streams\<close>, and timer and
  idle callbacks keep their own references to the same stream objects. Streams are
  therefore references (\<open>nat\<close>) into the store \<open>u_heap\<close>. \<open>st_state\<close> is the state the
  stream's bin reports, \<open>st_query_position\<close> what its decoder answers to a position query.
  \<open>st_volume\<close> is the \<^verbatim>\<open>volume\<close> property of the stream's volume element; the model only
  writes the values \<^verbatim>\<open>play\<close> writes (an element starts at 1, a fading stream at 0).
\<close>

record audio_stream =
  st_name :: string
  st_track :: "track option"
  st_playtime_stamp :: "int option"
  st_last_position :: int
  st_settle_flag :: int
  st_uri :: "string option"
  st_notify_source :: bool
  st_volume :: rat
  st_state :: gst_state
  st_query_position :: "int option"

definition AudioStream_init :: "string \<Rightarrow> audio_stream" where
  "AudioStream_init n =
     \<lparr>st_name = n, st_track = None, st_playtime_stamp = None, st_last_position = 0,
      st_settle_flag = 0, st_uri = None, st_notify_source = False, st_volume = 1,
      st_state = STATE_NULL, st_query_position = Some 0\<rparr>"

definition AudioStream_set_volume :: "rat \<Rightarrow> audio_stream \<Rightarrow> audio_stream" where
  "AudioStream_set_volume v st = st\<lparr>st_volume := v\<rparr>"

definition AudioStream_reset_playtime_stamp :: "rat \<Rightarrow> audio_stream \<Rightarrow> audio_stream" where
  "AudioStream_reset_playtime_stamp now st = st\<lparr>st_playtime_stamp := Some (py_int now)\<rparr>"

definition AudioStream_set_track ::
  "rat \<Rightarrow> track option \<Rightarrow> audio_stream \<Rightarrow> bool \<times> audio_stream" where
  "AudioStream_set_track now track st =
     (case track of
        None \<Rightarrow> (False, st)
      | Some t \<Rightarrow>
          if t_is_local t \<and> \<not> t_exists t then (False, st)
          else
            (let st1 = st\<lparr>st_track := Some t\<rparr>;
                 uri = t_loc t;
                 st2 = AudioStream_reset_playtime_stamp now st1;
                 st3 = st2\<lparr>st_uri := Some uri\<rparr>;
                 st4 = (if take 7 uri = ''cdda://'' then st3\<lparr>st_notify_source := True\<rparr> else st3)
             in (True, st4)))"

definition AudioStream_is_playing :: "audio_stream \<Rightarrow> bool" where
  "AudioStream_is_playing st = (st_state st = STATE_PLAYING)"

definition AudioStream_is_paused :: "audio_stream \<Rightarrow> bool" where
  "AudioStream_is_paused st = (st_state st = STATE_PAUSED)"

definition AudioStream_get_current :: "audio_stream \<Rightarrow> track option" where
  "AudioStream_get_current st =
     (if AudioStream_is_playing st \<or> AudioStream_is_paused st then st_track st else None)"

definition AudioStream_get_position :: "audio_stream \<Rightarrow> int \<times> audio_stream" where
  "AudioStream_get_position st =
     (if AudioStream_is_paused st then (st_last_position st, st)
      else
        (let pos = (case st_query_position st of Some x \<Rightarrow> x | None \<Rightarrow> 0)
         in (pos, st\<lparr>st_last_position := pos\<rparr>)))"

text \<open>
  \<^verbatim>\<open>update_playtime\<close> writes the track's \<^verbatim>\<open>'playtime'\<close>: it works on the store of playtimes
  and on the stream.
\<close>

definition AudioStream_update_playtime ::
  "rat \<Rightarrow> (nat \<Rightarrow> pyval) \<times> audio_stream \<Rightarrow> (nat \<Rightarrow> pyval) \<times> audio_stream" where
  "AudioStream_update_playtime now = (\<lambda>(pt, st).
     (case st_track st of
        None \<Rightarrow> (pt, st)
      | Some tr \<Rightarrow>
          if stamp_truthy (st_playtime_stamp st) then
            (let played = playtime_as_int (pt (t_id tr));
                 credit = py_int (now - of_int (the (st_playtime_stamp st)))
             in (pt(t_id tr := PyInt (played + credit)), st\<lparr>st_playtime_stamp := None\<rparr>))
          else (pt, st)))"

text \<open>
  The settings the engine reads with \<^verbatim>\<open>settings.get_option\<close>: \<^verbatim>\<open>player/user_fade_enabled\<close>,
  \<^verbatim>\<open>player/user_fade\<close>, \<^verbatim>\<open>player/crossfading\<close>, \<^verbatim>\<open>player/crossfade_duration\<close> (milliseconds).
\<close>

record settings =
  user_fade_enabled :: bool
  user_fade :: int
  crossfading :: bool
  crossfade_duration :: int

text \<open>
  GLib sources: what \<^verbatim>\<open>gobject.idle_add\<close> and \<^verbatim>\<open>gobject.timeout_add\<close> register, with the
  bound method and its arguments. A source stays in \<open>u_sources\<close> until
  \<^verbatim>\<open>gobject.source_remove\<close> takes it out; the interval is kept as the code passed it.
\<close>

datatype callback =
    CB_fade_stream nat int bool
  | CB_start_crossfade
  | CB_stop
  | CB_stream_set_state nat gst_state
  | CB_pipe_set_state gst_state
  | CB_settle_state_sub nat

datatype source = Idle callback | Timeout int callback

text \<open>
  \<open>u_pipe_members\<close> are the streams added to the pipeline, \<open>u_adder_links\<close> the streams
  linked to the adder (the mixer). \<open>u_gobject_timer_id\<close> is the attribute \<^verbatim>\<open>timer_id\<close> that
  \<^verbatim>\<open>play\<close> sets on the module \<^verbatim>\<open>gobject\<close>; \<open>u_timer_id\<close> is \<^verbatim>\<open>self.timer_id\<close>. The queue's
  back reference to the player is not followed by \<^verbatim>\<open>next(player=False)\<close>, the only way the
  engine calls it: the queue inside the engine carries no player.
\<close>

record 'pl unified_player =
  u_current_stream :: nat
  u_timer_id :: nat
  u_streams :: "nat option list"
  u_heap :: "nat \<Rightarrow> audio_stream"
  u_next_ref :: nat
  u_pipe_state :: gst_state
  u_pipe_members :: "nat list"
  u_adder_links :: "nat list"
  u_sources :: "(nat \<times> source) list"
  u_next_source :: nat
  u_gobject_timer_id :: "nat option"
  u_playtime :: "nat \<Rightarrow> pyval"
  u_events :: "event list"
  u_queue :: "('pl, unit) play_queue"

definition no_player_ops :: "unit player_ops" where
  "no_player_ops =
     \<lparr>po_current = (\<lambda>p. None),
      po_stop = (\<lambda>now p. (Inr (), p)),
      po_play = (\<lambda>now t p. (Inr (), p))\<rparr>"

definition idle_add :: "callback \<Rightarrow> 'pl unified_player \<Rightarrow> nat \<times> 'pl unified_player" where
  "idle_add cb u =
     (u_next_source u,
      u\<lparr>u_sources := u_sources u @ [(u_next_source u, Idle cb)],
        u_next_source := u_next_source u + 1\<rparr>)"

definition timeout_add ::
  "int \<Rightarrow> callback \<Rightarrow> 'pl unified_player \<Rightarrow> nat \<times> 'pl unified_player" where
  "timeout_add interval cb u =
     (u_next_source u,
      u\<lparr>u_sources := u_sources u @ [(u_next_source u, Timeout interval cb)],
        u_next_source := u_next_source u + 1\<rparr>)"

definition source_remove :: "nat \<Rightarrow> 'pl unified_player \<Rightarrow> 'pl unified_player" where
  "source_remove i u = u\<lparr>u_sources := filter (\<lambda>(j, s). j \<noteq> i) (u_sources u)\<rparr>"

definition upd_stream ::
  "nat \<Rightarrow> (audio_stream \<Rightarrow> audio_stream) \<Rightarrow> 'pl unified_player \<Rightarrow> 'pl unified_player" where
  "upd_stream r f u = u\<lparr>u_heap := (u_heap u)(r := f (u_heap u r))\<rparr>"

text \<open>
  \<^verbatim>\<open>self.pipe.set_state(state)\<close>: the pipeline and the bins inside it take the state, at once.
  This is the backend's call, not \<^verbatim>\<open>AudioStream.set_state\<close>: no playtime is touched.
\<close>

definition pipe_set_state :: "gst_state \<Rightarrow> 'pl unified_player \<Rightarrow> 'pl unified_player" where
  "pipe_set_state s u =
     u\<lparr>u_pipe_state := s,
       u_heap := (\<lambda>r. if r \<in> set (u_pipe_members u) then (u_heap u r)\<lparr>st_state := s\<rparr>
                        else u_heap u r)\<rparr>"

definition UnifiedPlayer_is_playing :: "'pl unified_player \<Rightarrow> bool" where
  "UnifiedPlayer_is_playing u = (u_pipe_state u = STATE_PLAYING)"

definition UnifiedPlayer_is_paused :: "'pl unified_player \<Rightarrow> bool" where
  "UnifiedPlayer_is_paused u = (u_pipe_state u = STATE_PAUSED)"

text \<open>The property \<^verbatim>\<open>current\<close>.\<close>

definition UnifiedPlayer_get_current :: "'pl unified_player \<Rightarrow> track option" where
  "UnifiedPlayer_get_current u =
     (case u_streams u ! u_current_stream u of
        None \<Rightarrow> None
      | Some r \<Rightarrow> AudioStream_get_current (u_heap u r))"

text \<open>\<^verbatim>\<open>get_position\<close>: the \<^verbatim>\<open>AttributeError\<close> of an empty slot is caught and gives 0.\<close>

definition UnifiedPlayer_get_position :: "'pl unified_player \<Rightarrow> int \<times> 'pl unified_player" where
  "UnifiedPlayer_get_position u =
     (case u_streams u ! u_current_stream u of
        None \<Rightarrow> (0, u)
      | Some r \<Rightarrow>
          (let (pos, st) = AudioStream_get_position (u_heap u r)
           in (pos, upd_stream r (\<lambda>old. st) u)))"

definition UnifiedPlayer_get_time :: "'pl unified_player \<Rightarrow> int \<times> 'pl unified_player" where
  "UnifiedPlayer_get_time u =
     (let (pos, u') = UnifiedPlayer_get_position u in (pos div gst_SECOND, u'))"

definition UnifiedPlayer_get_progress ::
  "'pl unified_player \<Rightarrow> (py_error + rat) \<times> 'pl unified_player" where
  "UnifiedPlayer_get_progress u =
     (let (t, u') = UnifiedPlayer_get_time u
      in case UnifiedPlayer_get_current u' of
           None \<Rightarrow> (Inl AttributeError, u')
         | Some tr \<Rightarrow>
             if t_duration tr = 0 then (Inr 0, u')
             else (Inr (of_int t / of_int (t_duration tr)), u'))"

definition first_index :: "'a \<Rightarrow> 'a list \<Rightarrow> nat" where
  "first_index x xs = length (takeWhile (\<lambda>y. y \<noteq> x) xs)"

text \<open>
  \<^verbatim>\<open>unlink_stream\<close>. On \<^verbatim>\<open>None\<close> the first line raises \<^verbatim>\<open>AttributeError\<close>, which returns
  \<^verbatim>\<open>True\<close>. Unlinking from the adder a stream that is not linked does nothing (the
  \<^verbatim>\<open>TypeError\<close> of releasing no pad is passed over). \<^verbatim>\<open>self.pipe.remove\<close> of a stream that is
  not in the pipeline raises \<^verbatim>\<open>gst.RemoveError\<close>; the handler names \<^verbatim>\<open>RemoveError\<close>, which is
  unbound in this module, so the bare \<^verbatim>\<open>except\<close> takes over and returns \<^verbatim>\<open>False\<close> with the
  slot of \<^verbatim>\<open>self.streams\<close> left as it was.
\<close>

definition UnifiedPlayer_unlink_stream ::
  "nat option \<Rightarrow> 'pl unified_player \<Rightarrow> bool \<times> 'pl unified_player" where
  "UnifiedPlayer_unlink_stream stream u =
     (case stream of
        None \<Rightarrow> (True, u)
      | Some r \<Rightarrow>
          (let u1 = u\<lparr>u_adder_links := removeAll r (u_adder_links u)\<rparr>;
               u2 = snd (idle_add (CB_stream_set_state r STATE_NULL) u1)
           in if r \<in> set (u_pipe_members u2) then
                (let u3 = u2\<lparr>u_pipe_members := removeAll r (u_pipe_members u2)\<rparr>;
                     u4 = (if Some r \<in> set (u_streams u3)
                           then u3\<lparr>u_streams :=
                                  (u_streams u3)[first_index (Some r) (u_streams u3) := None]\<rparr>
                           else u3)
                 in (True, u4))
              else (False, u2)))"

text \<open>
  \<^verbatim>\<open>_reset_crossfade_timer\<close>. Durations of tracks are whole seconds and \<^verbatim>\<open>get_time()\<close> is an
  integer, so \<^verbatim>\<open>int(...)\<close> changes nothing here.
\<close>

definition UnifiedPlayer_reset_crossfade_timer ::
  "settings \<Rightarrow> 'pl unified_player \<Rightarrow> (py_error + unit) \<times> 'pl unified_player" where
  "UnifiedPlayer_reset_crossfade_timer cfg u =
     (let u1 = (if u_timer_id u \<noteq> 0 then source_remove (u_timer_id u) u else u)
      in if \<not> UnifiedPlayer_is_playing u1 then (Inr (), u1)
         else if \<not> crossfading cfg then (Inr (), u1)
         else
           (let duration = crossfade_duration cfg
            in case UnifiedPlayer_get_current u1 of
                 None \<Rightarrow> (Inl AttributeError, u1)
               | Some tr \<Rightarrow>
                   (let (t, u2) = UnifiedPlayer_get_time u1;
                        time = t_duration tr * 1000 - (t * 1000 + duration)
                    in if time < duration then
                         (Inr (), snd (idle_add CB_start_crossfade u2))
                       else
                         (let (i, u3) = timeout_add time CB_start_crossfade u2
                          in (Inr (), u3\<lparr>u_timer_id := i\<rparr>)))))"

text \<open>The loop \<^verbatim>\<open>for stream in self.streams: self.unlink_stream(stream)\<close> of \<^verbatim>\<open>stop\<close>.\<close>

definition UnifiedPlayer_unlink_all :: "'pl unified_player \<Rightarrow> 'pl unified_player" where
  "UnifiedPlayer_unlink_all u =
     foldl (\<lambda>v i. snd (UnifiedPlayer_unlink_stream (u_streams v ! i) v)) u
       [0 ..< length (u_streams u)]"

definition UnifiedPlayer_stop ::
  "settings \<Rightarrow> 'pl unified_player \<Rightarrow> (py_error + bool) \<times> 'pl unified_player" where
  "UnifiedPlayer_stop cfg u =
     (if UnifiedPlayer_is_playing u \<or> UnifiedPlayer_is_paused u then
        (let current = UnifiedPlayer_get_current u;
             u1 = pipe_set_state STATE_NULL u;
             u2 = UnifiedPlayer_unlink_all u1
         in case UnifiedPlayer_reset_crossfade_timer cfg u2 of
              (Inl e, u3) \<Rightarrow> (Inl e, u3)
            | (Inr x, u3) \<Rightarrow>
                (Inr True, u3\<lparr>u_events := u_events u3 @ [Event_playback_end current]\<rparr>))
      else (Inr False, u))"

text \<open>
  \<^verbatim>\<open>link_stream\<close>: the stream is added to the pipeline and linked to the adder before
  \<^verbatim>\<open>set_track\<close> is tried; when that fails, \<^verbatim>\<open>self.stop()\<close> is all the cleaning up there is.
\<close>

definition UnifiedPlayer_link_stream ::
  "settings \<Rightarrow> rat \<Rightarrow> nat \<Rightarrow> track option \<Rightarrow> 'pl unified_player
     \<Rightarrow> (py_error + bool) \<times> 'pl unified_player" where
  "UnifiedPlayer_link_stream cfg now r track u =
     (let u1 = u\<lparr>u_pipe_members := u_pipe_members u @ [r]\<rparr>;
          u2 = u1\<lparr>u_adder_links := u_adder_links u1 @ [r]\<rparr>;
          (ok, st) = AudioStream_set_track now track (u_heap u2 r);
          u3 = upd_stream r (\<lambda>old. st) u2
      in if \<not> ok then
           (case UnifiedPlayer_stop cfg u3 of
              (Inl e, u4) \<Rightarrow> (Inl e, u4)
            | (Inr b, u4) \<Rightarrow> (Inr False, u4))
         else (Inr True, u3))"

definition stream_name :: "nat \<Rightarrow> string" where
  "stream_name n = ''Stream'' @ (if n = 0 then ''0'' else ''1'')"

text \<open>
  \<^verbatim>\<open>play(track, user)\<close>. It returns \<^verbatim>\<open>None\<close> for no track, \<^verbatim>\<open>False\<close> when the stream could not
  be linked, \<^verbatim>\<open>True\<close> otherwise. \<^verbatim>\<open>int(float(duration)/float(100))\<close> truncates towards zero.
\<close>

definition UnifiedPlayer_play ::
  "settings \<Rightarrow> rat \<Rightarrow> track option \<Rightarrow> bool \<Rightarrow> 'pl unified_player
     \<Rightarrow> (py_error + bool option) \<times> 'pl unified_player" where
  "UnifiedPlayer_play cfg now track user u =
     (case track of
        None \<Rightarrow> (Inr None, u)
      | Some t \<Rightarrow>
          (let nxt = 1 - u_current_stream u;
               u1 = (case u_streams u ! nxt of
                       None \<Rightarrow> u
                     | Some r0 \<Rightarrow> snd (UnifiedPlayer_unlink_stream (Some r0) u));
               fading = (if user then user_fade_enabled cfg else crossfading cfg);
               duration = (if user then (if user_fade_enabled cfg then user_fade cfg else 0)
                           else (if crossfading cfg then crossfade_duration cfg else 0));
               u2 = (if fading then u1
                     else snd (UnifiedPlayer_unlink_stream
                                 (u_streams u1 ! u_current_stream u1) u1));
               r = u_next_ref u2;
               u3 = u2\<lparr>u_heap := (u_heap u2)(r := AudioStream_init (stream_name nxt)),
                       u_next_ref := r + 1,
                       u_streams := (u_streams u2)[nxt := Some r]\<rparr>
           in case UnifiedPlayer_link_stream cfg now r (Some t) u3 of
                (Inl e, u4) \<Rightarrow> (Inl e, u4)
              | (Inr False, u4) \<Rightarrow> (Inr (Some False), u4)
              | (Inr True, u4) \<Rightarrow>
                  (let u5 = (if fading then upd_stream r (AudioStream_set_volume 0) u4 else u4);
                       u6 = pipe_set_state STATE_PLAYING u5;
                       u7 = upd_stream r (\<lambda>st. st\<lparr>st_settle_flag := 1\<rparr>) u6;
                       u8 = snd (idle_add (CB_stream_set_state r STATE_PLAYING) u7);
                       u9 = snd (idle_add (CB_pipe_set_state STATE_PLAYING) u8);
                       u10 =
                         (if fading then
                            (let timeout = py_int (of_int duration / 100);
                                 ua = (case u_streams u9 ! nxt of
                                         None \<Rightarrow> u9
                                       | Some ri \<Rightarrow>
                                           snd (timeout_add timeout (CB_fade_stream ri 1 False) u9));
                                 ub = (case u_streams ua ! u_current_stream ua of
                                         None \<Rightarrow> ua
                                       | Some ro \<Rightarrow>
                                           snd (timeout_add timeout (CB_fade_stream ro (- 1) True) ua))
                             in if crossfading cfg then
                                  (let time = t_duration t * 1000 - duration;
                                       (i, uc) = timeout_add time CB_start_crossfade ub
                                   in uc\<lparr>u_gobject_timer_id := Some i\<rparr>)
                                else ub)
                          else u9);
                       u11 = u10\<lparr>u_current_stream := nxt\<rparr>;
                       u12 = u11\<lparr>u_events := u_events u11 @ [Event_playback_start t]\<rparr>
                   in (Inr (Some True), u12))))"

text \<open>
  \<^verbatim>\<open>_start_crossfade\<close>, the callback of the crossfade timer. It checks nothing about the
  track or the stream it was armed for.
\<close>

definition UnifiedPlayer_start_crossfade ::
  "'pl playlist_ops \<Rightarrow> settings \<Rightarrow> rat \<Rightarrow> 'pl unified_player
     \<Rightarrow> (py_error + bool) \<times> 'pl unified_player" where
  "UnifiedPlayer_start_crossfade lo cfg now u =
     (case PlayQueue_next lo no_player_ops now False None (u_queue u) of
        (Inl e, q) \<Rightarrow> (Inl e, u\<lparr>u_queue := q\<rparr>)
      | (Inr tr, q) \<Rightarrow>
          (let u1 = u\<lparr>u_queue := q\<rparr>
           in case (if tr \<noteq> None then UnifiedPlayer_play cfg now tr False u1 else (Inr None, u1)) of
                (Inl e, u2) \<Rightarrow> (Inl e, u2)
              | (Inr b, u2) \<Rightarrow>
                  (let u3 = (if u_timer_id u2 \<noteq> 0 then source_remove (u_timer_id u2) u2 else u2)
                   in if tr = None then
                        (case UnifiedPlayer_get_current u3 of
                           None \<Rightarrow> (Inl AttributeError, u3)
                         | Some c \<Rightarrow>
                             (let (t, u4) = UnifiedPlayer_get_time u3;
                                  (i, u5) = timeout_add (1000 * (t_duration c - t)) CB_stop u4
                              in (Inr False, u5\<lparr>u_timer_id := i\<rparr>)))
                      else (Inr False, u3))))"

definition UnifiedPlayer_pause ::
  "settings \<Rightarrow> 'pl unified_player \<Rightarrow> (py_error + bool) \<times> 'pl unified_player" where
  "UnifiedPlayer_pause cfg u =
     (if UnifiedPlayer_is_playing u then
        (let u1 = pipe_set_state STATE_PAUSED u
         in case UnifiedPlayer_reset_crossfade_timer cfg u1 of
              (Inl e, u2) \<Rightarrow> (Inl e, u2)
            | (Inr x, u2) \<Rightarrow>
                (Inr True,
                 u2\<lparr>u_events := u_events u2 @ [Event_playback_pause (UnifiedPlayer_get_current u2)]\<rparr>))
      else (Inr False, u))"

definition UnifiedPlayer_unpause ::
  "settings \<Rightarrow> 'pl unified_player \<Rightarrow> (py_error + bool) \<times> 'pl unified_player" where
  "UnifiedPlayer_unpause cfg u =
     (if UnifiedPlayer_is_paused u then
        (case UnifiedPlayer_get_current u of
           None \<Rightarrow> (Inl AttributeError, u)
         | Some c \<Rightarrow>
             (let u1 = (if \<not> t_is_local c then pipe_set_state STATE_READY u else u);
                  u2 = pipe_set_state STATE_PLAYING u1
              in case UnifiedPlayer_reset_crossfade_timer cfg u2 of
                   (Inl e, u3) \<Rightarrow> (Inl e, u3)
                 | (Inr x, u3) \<Rightarrow>
                     (Inr True,
                      u3\<lparr>u_events :=
                           u_events u3 @ [Event_playback_resume (UnifiedPlayer_get_current u3)]\<rparr>)))
      else (Inr False, u))"

text \<open>
  \<^verbatim>\<open>AudioStream.set_state\<close>, the Python method (reached through the idle callbacks that
  \<^verbatim>\<open>play\<close> and \<^verbatim>\<open>unlink_stream\<close> register).
\<close>

definition AudioStream_settle_state :: "nat \<Rightarrow> 'pl unified_player \<Rightarrow> 'pl unified_player" where
  "AudioStream_settle_state r u =
     snd (idle_add (CB_settle_state_sub r) (upd_stream r (\<lambda>st. st\<lparr>st_settle_flag := 1\<rparr>) u))"

definition stream_update_playtime :: "rat \<Rightarrow> nat \<Rightarrow> 'pl unified_player \<Rightarrow> 'pl unified_player" where
  "stream_update_playtime now r u =
     (let (pt, st) = AudioStream_update_playtime now (u_playtime u, u_heap u r)
      in (upd_stream r (\<lambda>old. st) u)\<lparr>u_playtime := pt\<rparr>)"

definition AudioStream_set_state ::
  "rat \<Rightarrow> nat \<Rightarrow> gst_state \<Rightarrow> 'pl unified_player \<Rightarrow> 'pl unified_player" where
  "AudioStream_set_state now r state u =
     (let u1 = upd_stream r (\<lambda>st. st\<lparr>st_settle_flag := 0\<rparr>) u
      in if state = STATE_PLAYING then
           (let u2 = upd_stream r (\<lambda>st. st\<lparr>st_state := state\<rparr>) u1;
                u3 = AudioStream_settle_state r u2
            in upd_stream r (AudioStream_reset_playtime_stamp now) u3)
         else if state = STATE_PAUSED then
           (let u2 = stream_update_playtime now r u1;
                u3 = upd_stream r (\<lambda>st. st\<lparr>st_state := state\<rparr>) u2
            in upd_stream r (AudioStream_reset_playtime_stamp now) u3)
         else
           (let u2 = stream_update_playtime now r u1
            in upd_stream r (\<lambda>st. st\<lparr>st_state := state\<rparr>) u2))"

text \<open>The engine as \<^verbatim>\<open>__init__\<close> leaves it, and the settings used in the examples.\<close>

definition queue_init :: "(track list \<times> bool, unit) play_queue" where
  "queue_init = \<lparr>q_ordered_tracks = [], q_current_pos = 0, q_current_playing = False,
     q_current_playlist = None, q_stop_track = MInt (- 1), q_player = (), q_events = []\<rparr>"

definition unified_init :: "(track list \<times> bool) unified_player" where
  "unified_init = \<lparr>u_current_stream = 1, u_timer_id = 0, u_streams = [None, None],
     u_heap = (\<lambda>r. AudioStream_init []), u_next_ref = 0, u_pipe_state = STATE_NULL,
     u_pipe_members = [], u_adder_links = [], u_sources = [], u_next_source = 1,
     u_gobject_timer_id = None, u_playtime = (\<lambda>i. PyInt 0), u_events = [],
     u_queue = queue_init\<rparr>"

definition cfg_default :: settings where
  "cfg_default = \<lparr>user_fade_enabled = False, user_fade = 1000, crossfading = False,
     crossfade_duration = 3000\<rparr>"

definition cfg_user_fade :: settings where
  "cfg_user_fade = cfg_default\<lparr>user_fade_enabled := True\<rparr>"

definition cfg_crossfade :: settings where
  "cfg_crossfade = cfg_default\<lparr>crossfading := True\<rparr>"

text \<open>
  The engine's bookkeeping invariant: two slots, the current slot is 0 or 1, the streams in
  the slots are distinct and were allocated, and the pipeline holds exactly the streams of
  the slots, to which the links of the adder belong.
\<close>

definition slot_refs :: "'pl unified_player \<Rightarrow> nat list" where
  "slot_refs u = List.map_filter (\<lambda>x. x) (u_streams u)"

definition wf :: "'pl unified_player \<Rightarrow> bool" where
  "wf u \<longleftrightarrow>
     length (u_streams u) = 2 \<and> u_current_stream u < 2
     \<and> distinct (slot_refs u)
     \<and> (\<forall>r \<in> set (slot_refs u). r < u_next_ref u)
     \<and> set (u_pipe_members u) = set (slot_refs u)
     \<and> set (u_adder_links u) \<subseteq> set (slot_refs u)"

text \<open>
  The engine at line 790 of \<^verbatim>\<open>play\<close>, when the slot for the new stream has been cleared and,
  without fading, the current stream unlinked.
\<close>

definition play_prepared :: "settings \<Rightarrow> bool \<Rightarrow> 'pl unified_player \<Rightarrow> 'pl unified_player" where
  "play_prepared cfg user u =
     (let nxt = 1 - u_current_stream u;
          u1 = (case u_streams u ! nxt of
                  None \<Rightarrow> u
                | Some r0 \<Rightarrow> snd (UnifiedPlayer_unlink_stream (Some r0) u));
          fading = (if user then user_fade_enabled cfg else crossfading cfg)
      in if fading then u1
         else snd (UnifiedPlayer_unlink_stream (u_streams u1 ! u_current_stream u1) u1))"

text \<open>The sources left when the one recorded in \<^verbatim>\<open>self.timer_id\<close> has been removed.\<close>

definition cancelled :: "'pl unified_player \<Rightarrow> (nat \<times> source) list" where
  "cancelled u =
     (if u_timer_id u \<noteq> 0 then filter (\<lambda>(j, s). j \<noteq> u_timer_id u) (u_sources u)
      else u_sources u)"

text \<open>The idle callbacks \<^verbatim>\<open>unlink_stream\<close> registers: \<^verbatim>\<open>stream.set_state(gst.STATE_NULL)\<close>.\<close>

fun is_null_idle :: "nat \<times> source \<Rightarrow> bool" where
  "is_null_idle (j, Idle (CB_stream_set_state r STATE_NULL)) = True"
| "is_null_idle x = False"

text \<open>
  States of the engine used in the examples, each written out and shown below to be what
  the engine reaches: \<open>u_on_A\<close> after the user played \<open>track_A\<close> at second 100 with no fading;
  \<open>u_auto_A\<close> after \<^verbatim>\<open>play(track_A, user=False)\<close> with crossfading on and \<open>track_B\<close> queued;
  \<open>u_seeked\<close> after \<^verbatim>\<open>_reset_crossfade_timer\<close> on \<open>u_auto_A\<close>; \<open>u_skipped\<close> after the user then
  played \<open>track_B\<close> at second 110.
\<close>

definition stream_A :: "rat \<Rightarrow> audio_stream" where
  "stream_A v = \<lparr>st_name = ''Stream0'', st_track = Some track_A, st_playtime_stamp = Some 100,
     st_last_position = 0, st_settle_flag = 1, st_uri = Some (t_loc track_A),
     st_notify_source = False, st_volume = v, st_state = STATE_PLAYING,
     st_query_position = Some 0\<rparr>"

definition stream_B :: audio_stream where
  "stream_B = \<lparr>st_name = ''Stream1'', st_track = Some track_B, st_playtime_stamp = Some 110,
     st_last_position = 0, st_settle_flag = 1, st_uri = Some (t_loc track_B),
     st_notify_source = False, st_volume = 1, st_state = STATE_PLAYING,
     st_query_position = Some 0\<rparr>"

definition u_on_A :: "(track list \<times> bool) unified_player" where
  "u_on_A = \<lparr>u_current_stream = 0, u_timer_id = 0, u_streams = [Some 0, None],
     u_heap = (\<lambda>r. AudioStream_init [])(0 := stream_A 1),
     u_next_ref = 1, u_pipe_state = STATE_PLAYING, u_pipe_members = [0], u_adder_links = [0],
     u_sources =
       [(1, Idle (CB_stream_set_state 0 STATE_PLAYING)),
        (2, Idle (CB_pipe_set_state STATE_PLAYING))],
     u_next_source = 3, u_gobject_timer_id = None, u_playtime = (\<lambda>i. PyInt 0),
     u_events = [Event_playback_start track_A], u_queue = queue_init\<rparr>"

definition unified_queued :: "(track list \<times> bool) unified_player" where
  "unified_queued = unified_init\<lparr>u_queue := queue_init\<lparr>q_ordered_tracks := [track_B]\<rparr>\<rparr>"

definition u_auto_A :: "(track list \<times> bool) unified_player" where
  "u_auto_A = \<lparr>u_current_stream = 0, u_timer_id = 0, u_streams = [Some 0, None],
     u_heap = (\<lambda>r. AudioStream_init [])(0 := stream_A 0),
     u_next_ref = 1, u_pipe_state = STATE_PLAYING, u_pipe_members = [0], u_adder_links = [0],
     u_sources =
       [(1, Idle (CB_stream_set_state 0 STATE_PLAYING)),
        (2, Idle (CB_pipe_set_state STATE_PLAYING)),
        (3, Timeout 30 (CB_fade_stream 0 1 False)),
        (4, Timeout 197000 CB_start_crossfade)],
     u_next_source = 5, u_gobject_timer_id = Some 4, u_playtime = (\<lambda>i. PyInt 0),
     u_events = [Event_playback_start track_A],
     u_queue = queue_init\<lparr>q_ordered_tracks := [track_B]\<rparr>\<rparr>"

definition u_seeked :: "(track list \<times> bool) unified_player" where
  "u_seeked = u_auto_A
     \<lparr>u_timer_id := 5,
      u_sources := u_sources u_auto_A @ [(5, Timeout 197000 CB_start_crossfade)],
      u_next_source := 6\<rparr>"

definition u_skipped :: "(track list \<times> bool) unified_player" where
  "u_skipped = \<lparr>u_current_stream = 1, u_timer_id = 0, u_streams = [None, Some 1],
     u_heap = (\<lambda>r. AudioStream_init [])(0 := stream_A 0, 1 := stream_B),
     u_next_ref = 2, u_pipe_state = STATE_PLAYING, u_pipe_members = [1], u_adder_links = [1],
     u_sources =
       [(1, Idle (CB_stream_set_state 0 STATE_PLAYING)),
        (2, Idle (CB_pipe_set_state STATE_PLAYING)),
        (3, Timeout 30 (CB_fade_stream 0 1 False)),
        (4, Timeout 197000 CB_start_crossfade),
        (5, Idle (CB_stream_set_state 0 STATE_NULL)),
        (6, Idle (CB_stream_set_state 1 STATE_PLAYING)),
        (7, Idle (CB_pipe_set_state STATE_PLAYING))],
     u_next_source = 8, u_gobject_timer_id = Some 4, u_playtime = (\<lambda>i. PyInt 0),
     u_events = [Event_playback_start track_A, Event_playback_start track_B],
     u_queue = queue_init\<lparr>q_ordered_tracks := [track_B]\<rparr>\<rparr>"

text \<open>
  What can be seen of an engine or a player: every field, the streams allocated so far and
  the playtimes of the example tracks.
\<close>

definition observe ::
  "'pl unified_player \<Rightarrow>
     (nat \<times> nat \<times> nat option list \<times> audio_stream list \<times> nat \<times> gst_state)
     \<times> (nat list \<times> nat list \<times> (nat \<times> source) list \<times> nat \<times> nat option)
     \<times> (pyval list \<times> event list \<times> ('pl, unit) play_queue)" where
  "observe u =
     ((u_current_stream u, u_timer_id u, u_streams u, map (u_heap u) [0 ..< u_next_ref u],
       u_next_ref u, u_pipe_state u),
      (u_pipe_members u, u_adder_links u, u_sources u, u_next_source u, u_gobject_timer_id u),
      (map (u_playtime u) [0 ..< 4], u_events u, u_queue u))"

definition p_observe ::
  "gst_player \<Rightarrow>
     (track option \<times> int \<times> int option \<times> gst_state \<times> string option \<times> bool \<times> int option)
     \<times> pyval list \<times> event list" where
  "p_observe p =
     ((p_current p, p_last_position p, p_playtime_stamp p, p_state p, p_uri p,
       p_notify_source p, p_query_position p),
      map (p_playtime p) [0 ..< 4], p_events p)"

section \<open>Properties\<close>

text \<open>
  C10. For every sink and every volume \<open>v\<close> given to \<^verbatim>\<open>set_volume\<close>, the volume element
  holds \<open>v\<close> afterwards, and \<^verbatim>\<open>get_volume()\<close> still evaluates to \<^verbatim>\<open>None\<close>, never to \<open>v\<close>:
  the value it reads is not returned.
\<close>

theorem C10_get_volume_returns_None:
  "sink_volume (AudioSink_set_volume v s) = v
   \<and> AudioSink_get_volume (AudioSink_set_volume v s) = None
   \<and> AudioSink_get_volume (AudioSink_set_volume v s) \<noteq> Some v"
  by (simp add: AudioSink_set_volume_def AudioSink_get_volume_def)

subsection \<open>The stop marker of the queue\<close>








subsection \<open>The example states are reached\<close>

text \<open>
  Each example state agrees with what the code computes, in every field, on every stream
  allocated so far and on the playtimes of the example tracks.
\<close>

lemma player_on_A_reached:
  "fst (BaseGSTPlayer_play 100 (Some track_A) player_init) = Inr True
   \<and> p_observe (snd (BaseGSTPlayer_play 100 (Some track_A) player_init)) = p_observe player_on_A"
  by code_simp

lemma u_on_A_reached:
  "fst (UnifiedPlayer_play cfg_default 100 (Some track_A) True unified_init) = Inr (Some True)
   \<and> observe (snd (UnifiedPlayer_play cfg_default 100 (Some track_A) True unified_init))
       = observe u_on_A"
  by code_simp

lemma u_auto_A_reached:
  "fst (UnifiedPlayer_play cfg_crossfade 100 (Some track_A) False unified_queued) = Inr (Some True)
   \<and> observe (snd (UnifiedPlayer_play cfg_crossfade 100 (Some track_A) False unified_queued))
       = observe u_auto_A"
  by code_simp

lemma u_seeked_reached:
  "fst (UnifiedPlayer_reset_crossfade_timer cfg_crossfade u_auto_A) = Inr ()
   \<and> observe (snd (UnifiedPlayer_reset_crossfade_timer cfg_crossfade u_auto_A)) = observe u_seeked"
  by code_simp

lemma u_skipped_reached:
  "fst (UnifiedPlayer_play cfg_crossfade 110 (Some track_B) True u_auto_A) = Inr (Some True)
   \<and> observe (snd (UnifiedPlayer_play cfg_crossfade 110 (Some track_B) True u_auto_A))
       = observe u_skipped"
  by code_simp

subsection \<open>BaseGSTPlayer: progress, missing files, playtime\<close>

text \<open>
  C9. \<^verbatim>\<open>get_progress\<close> catches \<^verbatim>\<open>ZeroDivisionError\<close> only. On a player with no current
  track, as \<^verbatim>\<open>__init__\<close> leaves it, \<^verbatim>\<open>self.current.get_duration()\<close> raises \<^verbatim>\<open>AttributeError\<close>, in
  \<^verbatim>\<open>BaseGSTPlayer\<close> and in \<^verbatim>\<open>UnifiedPlayer\<close> alike: the call does not return 0.
\<close>

theorem C9_get_progress_without_track_raises:
  "p_current player_init = None
   \<and> fst (BaseGSTPlayer_get_progress player_init) = Inl AttributeError
   \<and> UnifiedPlayer_get_current unified_init = None
   \<and> fst (UnifiedPlayer_get_progress unified_init) = Inl AttributeError"
  by code_simp

text \<open>
  C8 (as amended). For every track that claims local storage while its file does not exist:
  \<^verbatim>\<open>AudioStream.set_track\<close> returns \<^verbatim>\<open>False\<close> and leaves the stream as it was;
  \<^verbatim>\<open>BaseGSTPlayer.play\<close> returns \<^verbatim>\<open>False\<close> and binds no track, but it has called \<^verbatim>\<open>stop()\<close> first.
  A player that was neither playing nor paused is left unchanged; one that was playing or
  paused ends in \<open>STATE_NULL\<close> with no current track and a \<^verbatim>\<open>playback_end\<close> event for the
  track it was playing.
\<close>

theorem C8_missing_file:
  assumes "t_is_local t" and "\<not> t_exists t"
  shows "AudioStream_set_track now (Some t) st = (False, st)
       \<and> BaseGSTPlayer_play now (Some t) p = (Inr False, snd (BaseGSTPlayer_stop now p))
       \<and> (\<not> BaseGSTPlayer_is_playing p \<and> \<not> BaseGSTPlayer_is_paused p \<longrightarrow>
            snd (BaseGSTPlayer_play now (Some t) p) = p)
       \<and> (BaseGSTPlayer_is_playing p \<or> BaseGSTPlayer_is_paused p \<longrightarrow>
            p_current (snd (BaseGSTPlayer_play now (Some t) p)) = None
            \<and> p_state (snd (BaseGSTPlayer_play now (Some t) p)) = STATE_NULL
            \<and> p_events (snd (BaseGSTPlayer_play now (Some t) p)) =
                p_events p @ [Event_playback_end (p_current p)])"
  using assms
  by (auto simp: AudioStream_set_track_def BaseGSTPlayer_play_def BaseGSTPlayer_stop_def
      BaseGSTPlayer_update_playtime_def log_event_def Let_def split: option.splits)

text \<open>
  The theorem at the player that is playing \<open>track_A\<close> and the track whose file is gone.
\<close>

theorem C8_missing_file_witness:
  "t_is_local track_missing \<and> \<not> t_exists track_missing
   \<and> BaseGSTPlayer_is_playing player_on_A
   \<and> fst (BaseGSTPlayer_play 130 (Some track_missing) player_on_A) = Inr False
   \<and> p_current (snd (BaseGSTPlayer_play 130 (Some track_missing) player_on_A)) = None
   \<and> AudioStream_set_track 130 (Some track_missing) (AudioStream_init ''Stream0'')
       = (False, AudioStream_init ''Stream0'')"
proof -
  have h1: "t_is_local track_missing" by code_simp
  have h2: "\<not> t_exists track_missing" by code_simp
  have h3: "BaseGSTPlayer_is_playing player_on_A" by code_simp
  note th = C8_missing_file [OF h1 h2, of 130 "AudioStream_init ''Stream0''" player_on_A]
  have a: "fst (BaseGSTPlayer_play 130 (Some track_missing) player_on_A) = Inr False"
    using th [THEN conjunct2, THEN conjunct1] by simp
  have b: "p_current (snd (BaseGSTPlayer_play 130 (Some track_missing) player_on_A)) = None"
    using th [THEN conjunct2, THEN conjunct2, THEN conjunct2] h3 by blast
  from h1 h2 h3 a b th [THEN conjunct1] show ?thesis by blast
qed

text \<open>
  C8 as stated fails for \<^verbatim>\<open>BaseGSTPlayer.play\<close>: the player is playing \<open>track_A\<close>; after the
  failed attempt on the missing file the current track is \<^verbatim>\<open>None\<close>, the playbin is in
  \<open>STATE_NULL\<close>, a \<^verbatim>\<open>playback_end\<close> event was logged and 30 seconds were added to the playtime
  of \<open>track_A\<close>.
\<close>

theorem C8_counterexample:
  "t_is_local track_missing \<and> \<not> t_exists track_missing
   \<and> p_current player_on_A = Some track_A \<and> p_state player_on_A = STATE_PLAYING
   \<and> fst (BaseGSTPlayer_play 130 (Some track_missing) player_on_A) = Inr False
   \<and> p_current (snd (BaseGSTPlayer_play 130 (Some track_missing) player_on_A)) = None
   \<and> p_state (snd (BaseGSTPlayer_play 130 (Some track_missing) player_on_A)) = STATE_NULL
   \<and> p_events (snd (BaseGSTPlayer_play 130 (Some track_missing) player_on_A)) =
        [Event_playback_start track_A, Event_playback_end (Some track_A)]
   \<and> p_playtime (snd (BaseGSTPlayer_play 130 (Some track_missing) player_on_A)) (t_id track_A) = PyInt 30"
  by code_simp

text \<open>
  C4. Started at second 100, paused at 110 and stopped at 130 while paused, \<open>track_A\<close> is
  credited 30 seconds, not 10: \<^verbatim>\<open>pause\<close> sets the playtime stamp anew and \<^verbatim>\<open>stop\<close> credits the
  time since that stamp. The cycle playing, paused, playing (pause at 110, unpause at 130,
  pause at 135) gives the 15 seconds of playing, since \<^verbatim>\<open>unpause\<close> sets the stamp once more. In the
  unified engine \<^verbatim>\<open>pause\<close> sets the state of the pipeline and never reaches
  \<^verbatim>\<open>AudioStream.set_state\<close>: when the stream is set to \<open>STATE_NULL\<close> at second 130 it is
  credited the 30 seconds since it was bound, the pause included.
\<close>

theorem C4_paused_time_is_credited_on_stop:
  "p_playtime_stamp player_on_A = Some 100
   \<and> p_playtime player_on_A (t_id track_A) = PyInt 0
   \<and> p_playtime (snd (BaseGSTPlayer_stop 130 (snd (BaseGSTPlayer_pause 110 player_on_A))))
        (t_id track_A) = PyInt 30
   \<and> p_playtime (snd (BaseGSTPlayer_pause 135 (snd (BaseGSTPlayer_unpause 130
        (snd (BaseGSTPlayer_pause 110 player_on_A)))))) (t_id track_A) = PyInt 15
   \<and> u_playtime (AudioStream_set_state 130 0 STATE_NULL (snd (UnifiedPlayer_pause cfg_default u_on_A)))
        (t_id track_A) = PyInt 30"
  by code_simp

subsection \<open>UnifiedPlayer: the bookkeeping invariant\<close>

lemma upt_0_2: "[0..<2] = [0, Suc 0]"
  by (simp add: upt_rec)

lemma two_slots: "length xs = 2 \<Longrightarrow> \<exists>a b. xs = [a, b]"
  by (cases xs; simp) (metis length_0_conv length_Suc_conv Suc_1 Suc_inject list.exhaust list.size(3))

lemma removeAll_nil [simp]: "(removeAll r xs = []) = (set xs \<subseteq> {r})"
  by (induction xs) auto

lemma wf_two:
  assumes "wf u"
  obtains a b where "u_streams u = [a, b]"
  using assms two_slots [of "u_streams u"] by (auto simp: wf_def)

lemma unlink_all_two:
  assumes "wf u"
  shows "u_streams (UnifiedPlayer_unlink_all u) = [None, None]
       \<and> u_pipe_members (UnifiedPlayer_unlink_all u) = []
       \<and> u_adder_links (UnifiedPlayer_unlink_all u) = []
       \<and> u_pipe_state (UnifiedPlayer_unlink_all u) = u_pipe_state u
       \<and> u_events (UnifiedPlayer_unlink_all u) = u_events u
       \<and> u_timer_id (UnifiedPlayer_unlink_all u) = u_timer_id u
       \<and> u_current_stream (UnifiedPlayer_unlink_all u) = u_current_stream u"
proof -
  from assms obtain a b where ab: "u_streams u = [a, b]" by (rule wf_two)
  show ?thesis
    using assms ab
    by (cases a; cases b)
      (auto simp: wf_def slot_refs_def List.map_filter_simps UnifiedPlayer_unlink_all_def upt_0_2
        UnifiedPlayer_unlink_stream_def idle_add_def Let_def first_index_def)
qed

lemma pipe_set_state_wf: "wf u \<Longrightarrow> wf (pipe_set_state s u)"
  by (simp add: wf_def pipe_set_state_def slot_refs_def)

lemma stop_when_running:
  assumes "wf u" and "UnifiedPlayer_is_playing u \<or> UnifiedPlayer_is_paused u"
  shows "fst (UnifiedPlayer_stop cfg u) = Inr True
       \<and> u_streams (snd (UnifiedPlayer_stop cfg u)) = [None, None]
       \<and> u_pipe_members (snd (UnifiedPlayer_stop cfg u)) = []
       \<and> u_adder_links (snd (UnifiedPlayer_stop cfg u)) = []
       \<and> u_pipe_state (snd (UnifiedPlayer_stop cfg u)) = STATE_NULL
       \<and> u_events (snd (UnifiedPlayer_stop cfg u)) =
           u_events u @ [Event_playback_end (UnifiedPlayer_get_current u)]
       \<and> u_current_stream (snd (UnifiedPlayer_stop cfg u)) = u_current_stream u"
proof -
  let ?u1 = "pipe_set_state STATE_NULL u"
  let ?u2 = "UnifiedPlayer_unlink_all ?u1"
  have wf1: "wf ?u1" using assms(1) by (rule pipe_set_state_wf)
  note all = unlink_all_two [OF wf1]
  have st: "u_pipe_state ?u2 = STATE_NULL" using all by (simp add: pipe_set_state_def)
  have ev: "u_events ?u2 = u_events u" using all by (simp add: pipe_set_state_def)
  have cs: "u_current_stream ?u2 = u_current_stream u" using all by (simp add: pipe_set_state_def)
  have reset: "UnifiedPlayer_reset_crossfade_timer cfg ?u2 =
      (Inr (), if u_timer_id ?u2 \<noteq> 0 then source_remove (u_timer_id ?u2) ?u2 else ?u2)"
    using st by (simp add: UnifiedPlayer_reset_crossfade_timer_def Let_def
        UnifiedPlayer_is_playing_def source_remove_def)
  show ?thesis
    using assms(2) all st ev cs
    by (simp add: UnifiedPlayer_stop_def Let_def reset source_remove_def)
qed


lemma unlink_stream_wf:
  assumes "wf u"
  shows "wf (snd (UnifiedPlayer_unlink_stream s u))"
proof -
  from assms obtain a b where ab: "u_streams u = [a, b]" by (rule wf_two)
  show ?thesis
    using assms ab
    by (cases s; cases a; cases b)
      (auto simp: wf_def slot_refs_def List.map_filter_simps
        UnifiedPlayer_unlink_stream_def idle_add_def Let_def first_index_def)
qed

lemma unlink_stream_frame:
  "u_pipe_state (snd (UnifiedPlayer_unlink_stream s u)) = u_pipe_state u
   \<and> u_events (snd (UnifiedPlayer_unlink_stream s u)) = u_events u
   \<and> u_current_stream (snd (UnifiedPlayer_unlink_stream s u)) = u_current_stream u
   \<and> u_heap (snd (UnifiedPlayer_unlink_stream s u)) = u_heap u
   \<and> u_next_ref (snd (UnifiedPlayer_unlink_stream s u)) = u_next_ref u"
  by (cases s) (auto simp: UnifiedPlayer_unlink_stream_def idle_add_def Let_def)

lemma unlink_stream_slot:
  assumes "wf u" and "i < 2"
  shows "u_streams (snd (UnifiedPlayer_unlink_stream (u_streams u ! i) u)) ! i = None
       \<and> (\<forall>j < 2. j \<noteq> i \<longrightarrow>
            u_streams (snd (UnifiedPlayer_unlink_stream (u_streams u ! i) u)) ! j = u_streams u ! j)"
proof -
  from assms(1) obtain a b where ab: "u_streams u = [a, b]" by (rule wf_two)
  have i: "i = 0 \<or> i = 1" using assms(2) by auto
  show ?thesis
    using assms(1) ab i
    by (cases a; cases b)
      (auto simp: wf_def slot_refs_def List.map_filter_simps less_2_cases_iff
        UnifiedPlayer_unlink_stream_def idle_add_def Let_def first_index_def)
qed

lemma link_after_alloc_fail:
  assumes wfv: "wf v" and nxt: "nxt = 1 - u_current_stream v"
    and slot: "u_streams v ! nxt = None"
    and run: "UnifiedPlayer_is_playing v \<or> UnifiedPlayer_is_paused v"
    and bad: "t_is_local t" "\<not> t_exists t"
    and w_def: "w = v\<lparr>u_heap := (u_heap v)(u_next_ref v := st0), u_next_ref := u_next_ref v + 1,
                   u_streams := (u_streams v)[nxt := Some (u_next_ref v)]\<rparr>"
  shows "fst (UnifiedPlayer_link_stream cfg now (u_next_ref v) (Some t) w) = Inr False
       \<and> u_streams (snd (UnifiedPlayer_link_stream cfg now (u_next_ref v) (Some t) w)) = [None, None]
       \<and> u_pipe_members (snd (UnifiedPlayer_link_stream cfg now (u_next_ref v) (Some t) w)) = []
       \<and> u_adder_links (snd (UnifiedPlayer_link_stream cfg now (u_next_ref v) (Some t) w)) = []
       \<and> u_pipe_state (snd (UnifiedPlayer_link_stream cfg now (u_next_ref v) (Some t) w)) = STATE_NULL
       \<and> u_events (snd (UnifiedPlayer_link_stream cfg now (u_next_ref v) (Some t) w)) =
           u_events v @ [Event_playback_end (UnifiedPlayer_get_current v)]
       \<and> u_current_stream (snd (UnifiedPlayer_link_stream cfg now (u_next_ref v) (Some t) w)) =
           u_current_stream v"
proof -
  let ?r = "u_next_ref v"
  let ?x = "w\<lparr>u_pipe_members := u_pipe_members w @ [?r]\<rparr>"
  let ?y = "?x\<lparr>u_adder_links := u_adder_links ?x @ [?r]\<rparr>"
  from wfv obtain a b where ab: "u_streams v = [a, b]" by (rule wf_two)
  have cs: "u_current_stream v = 0 \<or> u_current_stream v = 1"
    using wfv by (auto simp: wf_def)
  have wfy: "wf ?y"
    using wfv ab cs slot nxt
    by (cases a; cases b)
      (auto simp: wf_def w_def slot_refs_def List.map_filter_simps)
  have runy: "UnifiedPlayer_is_playing ?y \<or> UnifiedPlayer_is_paused ?y"
    using run by (simp add: w_def UnifiedPlayer_is_playing_def UnifiedPlayer_is_paused_def)
  have cur: "UnifiedPlayer_get_current ?y = UnifiedPlayer_get_current v"
    using wfv ab cs slot nxt
    by (cases a; cases b)
      (auto simp: wf_def w_def slot_refs_def List.map_filter_simps UnifiedPlayer_get_current_def)
  have link: "UnifiedPlayer_link_stream cfg now ?r (Some t) w =
      (case UnifiedPlayer_stop cfg ?y of (Inl e, u4) \<Rightarrow> (Inl e, u4) | (Inr b, u4) \<Rightarrow> (Inr False, u4))"
    using bad
    by (simp add: UnifiedPlayer_link_stream_def AudioStream_set_track_def Let_def upd_stream_def)
  note st = stop_when_running [OF wfy runy, of cfg]
  obtain res u4 where r: "UnifiedPlayer_stop cfg ?y = (res, u4)" by (cases "UnifiedPlayer_stop cfg ?y")
  from st r have res: "res = Inr True" by simp
  from st r cur show ?thesis
    unfolding link by (simp add: res w_def)
qed

lemma play_link_fail:
  assumes "UnifiedPlayer_link_stream cfg now (u_next_ref (play_prepared cfg user u)) (Some t)
             ((play_prepared cfg user u)
                \<lparr>u_heap := (u_heap (play_prepared cfg user u))
                     (u_next_ref (play_prepared cfg user u) :=
                        AudioStream_init (stream_name (1 - u_current_stream u))),
                 u_next_ref := u_next_ref (play_prepared cfg user u) + 1,
                 u_streams := (u_streams (play_prepared cfg user u))
                     [1 - u_current_stream u := Some (u_next_ref (play_prepared cfg user u))]\<rparr>)
           = (Inr False, u4)"
  shows "UnifiedPlayer_play cfg now (Some t) user u = (Inr (Some False), u4)"
  using assms by (simp add: UnifiedPlayer_play_def play_prepared_def Let_def)

lemma play_prepared_props:
  assumes wfu: "wf u"
  shows "wf (play_prepared cfg user u)
       \<and> u_streams (play_prepared cfg user u) ! (1 - u_current_stream u) = None
       \<and> u_current_stream (play_prepared cfg user u) = u_current_stream u
       \<and> u_pipe_state (play_prepared cfg user u) = u_pipe_state u
       \<and> u_events (play_prepared cfg user u) = u_events u
       \<and> UnifiedPlayer_get_current (play_prepared cfg user u) =
           (if (if user then user_fade_enabled cfg else crossfading cfg)
            then UnifiedPlayer_get_current u else None)"
proof -
  let ?nxt = "1 - u_current_stream u"
  let ?u1 = "snd (UnifiedPlayer_unlink_stream (u_streams u ! ?nxt) u)"
  let ?u2 = "snd (UnifiedPlayer_unlink_stream (u_streams ?u1 ! u_current_stream ?u1) ?u1)"
  have cs: "u_current_stream u < 2"
    using wfu by (simp add: wf_def)
  have nxt: "?nxt < 2" and ne: "u_current_stream u \<noteq> ?nxt"
    using cs by arith+
  have u1: "(case u_streams u ! ?nxt of None \<Rightarrow> u
             | Some r0 \<Rightarrow> snd (UnifiedPlayer_unlink_stream (Some r0) u)) = ?u1"
    by (simp add: UnifiedPlayer_unlink_stream_def split: option.splits)
  have prep: "play_prepared cfg user u =
      (if (if user then user_fade_enabled cfg else crossfading cfg) then ?u1 else ?u2)"
    unfolding play_prepared_def Let_def u1 by simp
  have wf1: "wf ?u1" using wfu by (rule unlink_stream_wf)
  have wf2: "wf ?u2" using wf1 by (rule unlink_stream_wf)
  note f1 = unlink_stream_frame [of "u_streams u ! ?nxt" u]
  note f2 = unlink_stream_frame [of "u_streams ?u1 ! u_current_stream ?u1" ?u1]
  note s1 = unlink_stream_slot [OF wfu nxt]
  have cs1: "u_current_stream ?u1 = u_current_stream u" using f1 by simp
  have cs1': "u_current_stream ?u1 < 2" using cs cs1 by simp
  note s2 = unlink_stream_slot [OF wf1 cs1']
  have slot1: "u_streams ?u1 ! ?nxt = None" using s1 by simp
  have keep1: "u_streams ?u1 ! u_current_stream u = u_streams u ! u_current_stream u"
    using s1 cs ne by simp
  have slot2: "u_streams ?u2 ! ?nxt = None"
    using s2 slot1 nxt ne cs1 by simp
  have gone2: "u_streams ?u2 ! u_current_stream u = None"
    using s2 cs1 by simp
  have cur1: "UnifiedPlayer_get_current ?u1 = UnifiedPlayer_get_current u"
    using keep1 f1 cs1 by (simp add: UnifiedPlayer_get_current_def split: option.splits)
  have cur2: "UnifiedPlayer_get_current ?u2 = None"
    using gone2 f2 cs1 by (simp add: UnifiedPlayer_get_current_def split: option.splits)
  show ?thesis
    using wf1 wf2 slot1 slot2 cs1 f1 f2 cur1 cur2 by (simp add: prep)
qed

text \<open>
  C2 (as amended). Whenever \<^verbatim>\<open>AudioStream.set_track\<close> fails for the incoming stream of
  \<^verbatim>\<open>UnifiedPlayer.play\<close> while the engine is playing or paused, \<^verbatim>\<open>link_stream\<close> stops the whole
  engine: \<^verbatim>\<open>play\<close> returns \<^verbatim>\<open>False\<close>, the pipeline is in \<open>STATE_NULL\<close>, both slots are empty,
  no stream is left in the pipeline or linked to the adder (the outgoing one neither), the
  current slot is unchanged, and the only event logged is \<^verbatim>\<open>playback_end\<close> (for the track that
  was current when fading was on, for \<^verbatim>\<open>None\<close> otherwise, the current stream having been
  unlinked before the attempt). No \<^verbatim>\<open>playback_error\<close> event is logged.
\<close>

theorem C2_failed_configure_stops_engine:
  assumes wfu: "wf u"
    and run: "UnifiedPlayer_is_playing u \<or> UnifiedPlayer_is_paused u"
    and fail: "\<not> fst (AudioStream_set_track now (Some t)
                      (AudioStream_init (stream_name (1 - u_current_stream u))))"
  shows "fst (UnifiedPlayer_play cfg now (Some t) user u) = Inr (Some False)
       \<and> u_pipe_state (snd (UnifiedPlayer_play cfg now (Some t) user u)) = STATE_NULL
       \<and> u_streams (snd (UnifiedPlayer_play cfg now (Some t) user u)) = [None, None]
       \<and> u_adder_links (snd (UnifiedPlayer_play cfg now (Some t) user u)) = []
       \<and> u_pipe_members (snd (UnifiedPlayer_play cfg now (Some t) user u)) = []
       \<and> u_current_stream (snd (UnifiedPlayer_play cfg now (Some t) user u)) = u_current_stream u
       \<and> u_events (snd (UnifiedPlayer_play cfg now (Some t) user u)) =
           u_events u @
           [Event_playback_end
              (if (if user then user_fade_enabled cfg else crossfading cfg)
               then UnifiedPlayer_get_current u else None)]"
proof -
  let ?v = "play_prepared cfg user u"
  let ?w = "?v\<lparr>u_heap := (u_heap ?v)(u_next_ref ?v :=
                        AudioStream_init (stream_name (1 - u_current_stream u))),
                 u_next_ref := u_next_ref ?v + 1,
                 u_streams := (u_streams ?v)[1 - u_current_stream u := Some (u_next_ref ?v)]\<rparr>"
  note pp = play_prepared_props [OF wfu, of cfg user]
  from fail have bad: "t_is_local t" "\<not> t_exists t"
    by (auto simp: AudioStream_set_track_def Let_def split: if_splits)
  have wfv: "wf ?v" using pp by simp
  have nxt: "1 - u_current_stream u = 1 - u_current_stream ?v" using pp by simp
  have slot: "u_streams ?v ! (1 - u_current_stream u) = None" using pp by simp
  have runv: "UnifiedPlayer_is_playing ?v \<or> UnifiedPlayer_is_paused ?v"
    using run pp by (simp add: UnifiedPlayer_is_playing_def UnifiedPlayer_is_paused_def)
  note lk = link_after_alloc_fail [OF wfv nxt slot runv bad, of ?w _ cfg now, OF refl]
  obtain res u4 where r: "UnifiedPlayer_link_stream cfg now (u_next_ref ?v) (Some t) ?w = (res, u4)"
    by (cases "UnifiedPlayer_link_stream cfg now (u_next_ref ?v) (Some t) ?w")
  from lk r have res: "res = Inr False" by simp
  have play: "UnifiedPlayer_play cfg now (Some t) user u = (Inr (Some False), u4)"
    using r res by (intro play_link_fail) simp
  from lk r pp show ?thesis by (simp add: play)
qed

text \<open>
  The theorem at the engine playing \<open>track_A\<close>, when the user plays the missing file with
  user fading on.
\<close>

theorem C2_failed_configure_stops_engine_witness:
  "wf u_on_A \<and> UnifiedPlayer_is_playing u_on_A
   \<and> \<not> fst (AudioStream_set_track 130 (Some track_missing)
             (AudioStream_init (stream_name (1 - u_current_stream u_on_A))))
   \<and> fst (UnifiedPlayer_play cfg_user_fade 130 (Some track_missing) True u_on_A) = Inr (Some False)
   \<and> u_pipe_state (snd (UnifiedPlayer_play cfg_user_fade 130 (Some track_missing) True u_on_A)) = STATE_NULL
   \<and> u_streams (snd (UnifiedPlayer_play cfg_user_fade 130 (Some track_missing) True u_on_A)) = [None, None]"
proof -
  have h1: "wf u_on_A" by code_simp
  have h2: "UnifiedPlayer_is_playing u_on_A" by code_simp
  have h3: "\<not> fst (AudioStream_set_track 130 (Some track_missing)
             (AudioStream_init (stream_name (1 - u_current_stream u_on_A))))" by code_simp
  note th = C2_failed_configure_stops_engine [OF h1 disjI1 [OF h2] h3, of cfg_user_fade True]
  from h1 h2 h3 th [THEN conjunct1] th [THEN conjunct2, THEN conjunct1]
    th [THEN conjunct2, THEN conjunct2, THEN conjunct1]
  show ?thesis by blast
qed

text \<open>
  C2 as stated fails. With user fading on, the outgoing stream of \<open>track_A\<close> is playing and
  linked to the adder; after the failed \<^verbatim>\<open>play\<close> the pipeline and that stream are in
  \<open>STATE_NULL\<close>, nothing is linked to the adder, and the events are the start and the end of
  \<open>track_A\<close>: no error event. On an engine that is not playing, \<^verbatim>\<open>stop()\<close> does nothing: the
  new stream stays in its slot, in the pipeline and linked to the adder, with no track and no
  URI.
\<close>

theorem C2_counterexample:
  "st_track (u_heap u_on_A 0) = Some track_A \<and> st_state (u_heap u_on_A 0) = STATE_PLAYING
   \<and> u_adder_links u_on_A = [0] \<and> u_pipe_state u_on_A = STATE_PLAYING
   \<and> fst (UnifiedPlayer_play cfg_user_fade 130 (Some track_missing) True u_on_A) = Inr (Some False)
   \<and> u_pipe_state (snd (UnifiedPlayer_play cfg_user_fade 130 (Some track_missing) True u_on_A)) = STATE_NULL
   \<and> st_state (u_heap (snd (UnifiedPlayer_play cfg_user_fade 130 (Some track_missing) True u_on_A)) 0) = STATE_NULL
   \<and> u_adder_links (snd (UnifiedPlayer_play cfg_user_fade 130 (Some track_missing) True u_on_A)) = []
   \<and> u_events (snd (UnifiedPlayer_play cfg_user_fade 130 (Some track_missing) True u_on_A)) =
        [Event_playback_start track_A, Event_playback_end (Some track_A)]
   \<and> fst (UnifiedPlayer_play cfg_default 100 (Some track_missing) True unified_init) = Inr (Some False)
   \<and> u_streams (snd (UnifiedPlayer_play cfg_default 100 (Some track_missing) True unified_init)) = [Some 0, None]
   \<and> u_adder_links (snd (UnifiedPlayer_play cfg_default 100 (Some track_missing) True unified_init)) = [0]
   \<and> st_track (u_heap (snd (UnifiedPlayer_play cfg_default 100 (Some track_missing) True unified_init)) 0) = None
   \<and> st_uri (u_heap (snd (UnifiedPlayer_play cfg_default 100 (Some track_missing) True unified_init)) 0) = None"
  by code_simp

subsection \<open>UnifiedPlayer: crossfade timers\<close>

text \<open>
  C5. For \<open>track_B\<close>, 2 seconds long, and a crossfade of 3000 ms, \<^verbatim>\<open>play(track_B, user=False)\<close>
  arms the crossfade timer with the interval -1000: the predicted start has passed and the
  crossfade is neither started at once nor ever. \<^verbatim>\<open>_reset_crossfade_timer\<close>, run on the state
  \<^verbatim>\<open>play\<close> leaves, does what \<^verbatim>\<open>play\<close> misses: it registers \<^verbatim>\<open>_start_crossfade\<close> as an idle callback.
\<close>

theorem C5_play_arms_timer_in_the_past:
  "t_duration track_B * 1000 - crossfade_duration cfg_crossfade = - 1000
   \<and> u_sources (snd (UnifiedPlayer_play cfg_crossfade 100 (Some track_B) False unified_init)) =
       [(1, Idle (CB_stream_set_state 0 STATE_PLAYING)),
        (2, Idle (CB_pipe_set_state STATE_PLAYING)),
        (3, Timeout 30 (CB_fade_stream 0 1 False)),
        (4, Timeout (- 1000) CB_start_crossfade)]
   \<and> u_sources (snd (UnifiedPlayer_reset_crossfade_timer cfg_crossfade
         (snd (UnifiedPlayer_play cfg_crossfade 100 (Some track_B) False unified_init)))) =
       [(1, Idle (CB_stream_set_state 0 STATE_PLAYING)),
        (2, Idle (CB_pipe_set_state STATE_PLAYING)),
        (3, Timeout 30 (CB_fade_stream 0 1 False)),
        (4, Timeout (- 1000) CB_start_crossfade),
        (5, Idle CB_start_crossfade)]"
  by code_simp

lemma get_time_frame:
  "u_sources (snd (UnifiedPlayer_get_time u)) = u_sources u
   \<and> u_next_source (snd (UnifiedPlayer_get_time u)) = u_next_source u
   \<and> u_timer_id (snd (UnifiedPlayer_get_time u)) = u_timer_id u"
  by (simp add: UnifiedPlayer_get_time_def UnifiedPlayer_get_position_def upd_stream_def
      Let_def split: option.splits prod.splits)

lemma reset_sources:
  "u_sources (snd (UnifiedPlayer_reset_crossfade_timer cfg u)) = cancelled u
   \<or> u_sources (snd (UnifiedPlayer_reset_crossfade_timer cfg u)) =
        cancelled u @ [(u_next_source u, Idle CB_start_crossfade)]
   \<or> (\<exists>time. u_sources (snd (UnifiedPlayer_reset_crossfade_timer cfg u)) =
                 cancelled u @ [(u_next_source u, Timeout time CB_start_crossfade)]
        \<and> u_timer_id (snd (UnifiedPlayer_reset_crossfade_timer cfg u)) = u_next_source u)"
proof -
  let ?u1 = "if u_timer_id u \<noteq> 0 then source_remove (u_timer_id u) u else u"
  have s1: "u_sources ?u1 = cancelled u" and n1: "u_next_source ?u1 = u_next_source u"
    by (simp_all add: cancelled_def source_remove_def)
  note gt = get_time_frame [of ?u1]
  obtain t u2 where g: "UnifiedPlayer_get_time ?u1 = (t, u2)"
    by (cases "UnifiedPlayer_get_time ?u1")
  from gt g s1 n1 have u2: "u_sources u2 = cancelled u" "u_next_source u2 = u_next_source u"
    by simp_all
  show ?thesis
    unfolding UnifiedPlayer_reset_crossfade_timer_def Let_def
    using s1 n1 u2 g
    by (auto simp: idle_add_def timeout_add_def split: option.splits)
qed



lemma unlink_all_sources:
  assumes "wf u"
  shows "\<exists>idles. u_sources (UnifiedPlayer_unlink_all u) = u_sources u @ idles
                \<and> list_all is_null_idle idles"
proof -
  from assms obtain a b where ab: "u_streams u = [a, b]" by (rule wf_two)
  show ?thesis
    using assms ab
    by (cases a; cases b)
      (auto simp: wf_def slot_refs_def List.map_filter_simps UnifiedPlayer_unlink_all_def upt_0_2
        UnifiedPlayer_unlink_stream_def idle_add_def Let_def first_index_def)
qed

lemma stop_sources:
  assumes "wf u" and "UnifiedPlayer_is_playing u \<or> UnifiedPlayer_is_paused u"
  shows "\<exists>idles. list_all is_null_idle idles
           \<and> u_sources (snd (UnifiedPlayer_stop cfg u)) =
               (if u_timer_id u \<noteq> 0
                then filter (\<lambda>(j, s). j \<noteq> u_timer_id u) (u_sources u @ idles)
                else u_sources u @ idles)"
proof -
  let ?u1 = "pipe_set_state STATE_NULL u"
  let ?u2 = "UnifiedPlayer_unlink_all ?u1"
  have wf1: "wf ?u1" using assms(1) by (rule pipe_set_state_wf)
  from unlink_all_sources [OF wf1] obtain idles where
    idles: "u_sources ?u2 = u_sources u @ idles" "list_all is_null_idle idles"
    by (auto simp: pipe_set_state_def)
  note all = unlink_all_two [OF wf1]
  have st: "u_pipe_state ?u2 = STATE_NULL" using all by (simp add: pipe_set_state_def)
  have ti: "u_timer_id ?u2 = u_timer_id u" using all by (simp add: pipe_set_state_def)
  have reset: "UnifiedPlayer_reset_crossfade_timer cfg ?u2 =
      (Inr (), if u_timer_id ?u2 \<noteq> 0 then source_remove (u_timer_id ?u2) ?u2 else ?u2)"
    using st by (simp add: UnifiedPlayer_reset_crossfade_timer_def Let_def
        UnifiedPlayer_is_playing_def source_remove_def)
  have "u_sources (snd (UnifiedPlayer_stop cfg u)) =
               (if u_timer_id u \<noteq> 0
                then filter (\<lambda>(j, s). j \<noteq> u_timer_id u) (u_sources u @ idles)
                else u_sources u @ idles)"
    using assms(2) idles(1) ti
    by (simp add: UnifiedPlayer_stop_def Let_def reset source_remove_def)
  with idles(2) show ?thesis by blast
qed

lemma start_crossfade_unconditional:
  assumes "PlayQueue_next lo no_player_ops now False None (u_queue u) = (Inr (Some tr), q)"
  shows "UnifiedPlayer_start_crossfade lo cfg now u =
           (case UnifiedPlayer_play cfg now (Some tr) False (u\<lparr>u_queue := q\<rparr>) of
              (Inl e, u2) \<Rightarrow> (Inl e, u2)
            | (Inr b, u2) \<Rightarrow>
                (Inr False, if u_timer_id u2 \<noteq> 0 then source_remove (u_timer_id u2) u2 else u2))"
  using assms
  by (simp add: UnifiedPlayer_start_crossfade_def Let_def split: prod.splits sum.splits)

text \<open>
  C6 (as amended). \<^verbatim>\<open>_reset_crossfade_timer\<close> first removes the source recorded in
  \<^verbatim>\<open>self.timer_id\<close> and then registers at most one source: none, \<^verbatim>\<open>_start_crossfade\<close> as an
  idle callback, or a crossfade timer whose id it records in \<^verbatim>\<open>self.timer_id\<close>. \<^verbatim>\<open>stop()\<close>, on
  an engine that is playing or paused, registers the \<open>STATE_NULL\<close> idle callbacks of
  \<^verbatim>\<open>unlink_stream\<close> and removes the source recorded in \<^verbatim>\<open>self.timer_id\<close>, no other.
  \<^verbatim>\<open>_start_crossfade\<close> makes no check of the track or stream its timer was armed for: whenever
  the queue gives a track, it plays that track.
\<close>

theorem C6_timers:
  shows "(u_sources (snd (UnifiedPlayer_reset_crossfade_timer cfg u)) = cancelled u
          \<or> u_sources (snd (UnifiedPlayer_reset_crossfade_timer cfg u)) =
               cancelled u @ [(u_next_source u, Idle CB_start_crossfade)]
          \<or> (\<exists>time. u_sources (snd (UnifiedPlayer_reset_crossfade_timer cfg u)) =
                 cancelled u @ [(u_next_source u, Timeout time CB_start_crossfade)]
               \<and> u_timer_id (snd (UnifiedPlayer_reset_crossfade_timer cfg u)) = u_next_source u))
       \<and> (wf u \<and> (UnifiedPlayer_is_playing u \<or> UnifiedPlayer_is_paused u) \<longrightarrow>
            (\<exists>idles. list_all is_null_idle idles
               \<and> u_sources (snd (UnifiedPlayer_stop cfg u)) =
                   (if u_timer_id u \<noteq> 0
                    then filter (\<lambda>(j, s). j \<noteq> u_timer_id u) (u_sources u @ idles)
                    else u_sources u @ idles)))
       \<and> (PlayQueue_next lo no_player_ops now False None (u_queue u) = (Inr (Some tr), q) \<longrightarrow>
            UnifiedPlayer_start_crossfade lo cfg now u =
              (case UnifiedPlayer_play cfg now (Some tr) False (u\<lparr>u_queue := q\<rparr>) of
                 (Inl e, u2) \<Rightarrow> (Inl e, u2)
               | (Inr b, u2) \<Rightarrow>
                   (Inr False,
                    if u_timer_id u2 \<noteq> 0 then source_remove (u_timer_id u2) u2 else u2)))"
  using reset_sources [of cfg u] stop_sources [of u cfg]
    start_crossfade_unconditional [of lo now u tr q cfg]
  by blast

lemma u_seeked_facts:
  "wf u_seeked" "UnifiedPlayer_is_playing u_seeked" "u_timer_id u_seeked = 5"
  "u_next_source u_seeked = 6"
  "cancelled u_seeked =
     [(1, Idle (CB_stream_set_state 0 STATE_PLAYING)),
      (2, Idle (CB_pipe_set_state STATE_PLAYING)),
      (3, Timeout 30 (CB_fade_stream 0 1 False)),
      (4, Timeout 197000 CB_start_crossfade)]"
  by code_simp+

text \<open>
  The theorem at \<open>u_seeked\<close>, where \<^verbatim>\<open>self.timer_id\<close> is 5: neither after a second
  \<^verbatim>\<open>_reset_crossfade_timer\<close> nor after \<^verbatim>\<open>stop()\<close> is timer 5 pending, and \<^verbatim>\<open>_start_crossfade\<close>
  plays \<open>track_B\<close>, which the queue gives.
\<close>

theorem C6_timers_witness:
  "wf u_seeked \<and> UnifiedPlayer_is_playing u_seeked \<and> u_timer_id u_seeked = 5
   \<and> PlayQueue_next list_playlist no_player_ops 120 False None (u_queue u_seeked)
        = (Inr (Some track_B), (u_queue u_seeked)\<lparr>q_ordered_tracks := [], q_current_pos := 0,
              q_current_playing := True\<rparr>)
   \<and> (5, Timeout 197000 CB_start_crossfade) \<notin>
        set (u_sources (snd (UnifiedPlayer_reset_crossfade_timer cfg_crossfade u_seeked)))
   \<and> (5, Timeout 197000 CB_start_crossfade) \<notin>
        set (u_sources (snd (UnifiedPlayer_stop cfg_crossfade u_seeked)))
   \<and> fst (UnifiedPlayer_start_crossfade list_playlist cfg_crossfade 120 u_seeked) = Inr False"
proof -
  let ?q = "(u_queue u_seeked)\<lparr>q_ordered_tracks := [], q_current_pos := 0,
              q_current_playing := True\<rparr>"
  have nx: "PlayQueue_next list_playlist no_player_ops 120 False None (u_queue u_seeked)
        = (Inr (Some track_B), ?q)" by code_simp
  note th = C6_timers [of cfg_crossfade u_seeked list_playlist 120 track_B ?q]
  have a: "(5, Timeout 197000 CB_start_crossfade) \<notin>
        set (u_sources (snd (UnifiedPlayer_reset_crossfade_timer cfg_crossfade u_seeked)))"
    using th [THEN conjunct1] by (auto simp: u_seeked_facts)
  have b: "(5, Timeout 197000 CB_start_crossfade) \<notin>
        set (u_sources (snd (UnifiedPlayer_stop cfg_crossfade u_seeked)))"
    using th [THEN conjunct2, THEN conjunct1] u_seeked_facts(1,2)
    by (auto simp: u_seeked_facts(3))
  have pl: "fst (UnifiedPlayer_play cfg_crossfade 120 (Some track_B) False (u_seeked\<lparr>u_queue := ?q\<rparr>))
      = Inr (Some True)" by code_simp
  have c: "fst (UnifiedPlayer_start_crossfade list_playlist cfg_crossfade 120 u_seeked) = Inr False"
    using th [THEN conjunct2, THEN conjunct2] nx pl
    by (auto split: prod.splits sum.splits)
  from u_seeked_facts(1,2,3) nx a b c show ?thesis by blast
qed

text \<open>
  C6 as stated fails. In \<open>u_seeked\<close> two crossfade timers are pending at once: timer 4, armed
  by \<^verbatim>\<open>play\<close>, was not cancelled when \<^verbatim>\<open>_reset_crossfade_timer\<close> armed timer 5. In \<open>u_skipped\<close>
  the current track is \<open>track_B\<close> and timer 4, armed for \<open>track_A\<close>, is still pending; when it
  fires, \<^verbatim>\<open>_start_crossfade\<close> starts a transition (a \<^verbatim>\<open>playback_start\<close> event, the other slot
  current). \<^verbatim>\<open>stop()\<close> on \<open>u_auto_A\<close> leaves the fade timer 3 and the crossfade timer 4
  pending.
\<close>

theorem C6_counterexample:
  "u_sources u_seeked =
     [(1, Idle (CB_stream_set_state 0 STATE_PLAYING)),
      (2, Idle (CB_pipe_set_state STATE_PLAYING)),
      (3, Timeout 30 (CB_fade_stream 0 1 False)),
      (4, Timeout 197000 CB_start_crossfade),
      (5, Timeout 197000 CB_start_crossfade)]
   \<and> UnifiedPlayer_get_current u_skipped = Some track_B
   \<and> (4, Timeout 197000 CB_start_crossfade) \<in> set (u_sources u_skipped)
   \<and> fst (UnifiedPlayer_start_crossfade list_playlist cfg_crossfade 120 u_skipped) = Inr False
   \<and> u_events (snd (UnifiedPlayer_start_crossfade list_playlist cfg_crossfade 120 u_skipped)) =
        u_events u_skipped @ [Event_playback_start track_B]
   \<and> u_current_stream (snd (UnifiedPlayer_start_crossfade list_playlist cfg_crossfade 120 u_skipped))
        \<noteq> u_current_stream u_skipped
   \<and> fst (UnifiedPlayer_stop cfg_crossfade u_auto_A) = Inr True
   \<and> u_sources (snd (UnifiedPlayer_stop cfg_crossfade u_auto_A)) =
     [(1, Idle (CB_stream_set_state 0 STATE_PLAYING)),
      (2, Idle (CB_pipe_set_state STATE_PLAYING)),
      (3, Timeout 30 (CB_fade_stream 0 1 False)),
      (4, Timeout 197000 CB_start_crossfade),
      (5, Idle (CB_stream_set_state 0 STATE_NULL))]"
  by code_simp

end
